theory Spec2Isabelle
  imports
    Main
    "HOL-Library.Char_ord"
    "HOL-Library.List_Lexorder"
    "HOL-Library.Sublist"
    "HOL-Library.AList"
begin

section \<open>JavaScript strings and arrays\<close>

text \<open>
  A JavaScript string is modelled as a \<^typ>\<open>string\<close>, the list of its code units, and
  an array as a list. The relational operators on strings compare code units from the
  left, a proper prefix being smaller: this is the lexicographic order of
  \<open>List_Lexorder\<close> over the order of \<^typ>\<open>char\<close>. The lemmas on sorting below use
  only that the order on code units is linear.
\<close>

text \<open>\<open>s.startsWith(p)\<close>\<close>

definition startsWith :: "string \<Rightarrow> string \<Rightarrow> bool" where
  "startsWith s p = prefix p s"

text \<open>
  \<open>s.split(sep)\<close> for a string separator. \<open>split_from sep acc rest\<close> scans \<open>rest\<close>
  from the left; \<open>acc\<close> is the piece collected since the last separator. With the
  empty separator JavaScript returns the code units one by one.
\<close>

fun split_from :: "string \<Rightarrow> string \<Rightarrow> string \<Rightarrow> string list" where
  "split_from sep acc [] = [acc]"
| "split_from sep acc (c # cs) =
     (if sep \<noteq> [] \<and> prefix sep (c # cs)
      then acc # split_from sep [] (drop (length sep - 1) cs)
      else split_from sep (acc @ [c]) cs)"

definition js_split :: "string \<Rightarrow> string \<Rightarrow> string list" where
  "js_split s sep = (if sep = [] then map (\<lambda>c. [c]) s else split_from sep [] s)"

text \<open>\<open>xs.join(sep)\<close> on an array of strings.\<close>

fun join :: "string \<Rightarrow> string list \<Rightarrow> string" where
  "join sep [] = []"
| "join sep [x] = x"
| "join sep (x # y # ys) = x @ sep @ join sep (y # ys)"

text \<open>
  \<open>s.lastIndexOf(c)\<close> for a one-character search string: the greatest index holding
  \<open>c\<close>, and \<open>-1\<close> when there is none.
\<close>

definition lastIndexOf :: "string \<Rightarrow> char \<Rightarrow> int" where
  "lastIndexOf s c =
     (if c \<in> set s
      then int (length s) - 1 - int (length (takeWhile (\<lambda>x. x \<noteq> c) (rev s)))
      else - 1)"

text \<open>
  \<open>new Set(xs)\<close>, read back in iteration order: insertion order, a repeated element
  keeping its first place.
\<close>

definition js_Set :: "'a list \<Rightarrow> 'a list" where
  "js_Set xs = fold (\<lambda>x acc. if x \<in> set acc then acc else acc @ [x]) xs []"

section \<open>The common start of the file paths\<close>

text \<open>
  The loop of \<open>getCommonStringStart\<close>: \<open>i\<close> runs over the indices of \<open>first\<close>; reading
  \<open>last[i]\<close> past the end of \<open>last\<close> gives \<open>undefined\<close>, which differs from every
  code unit.
\<close>

function scan_common :: "string \<Rightarrow> string \<Rightarrow> nat \<Rightarrow> string" where
  "scan_common firstS lastS i =
     (if i < length firstS
      then (if i < length lastS \<and> firstS ! i = lastS ! i
            then scan_common firstS lastS (Suc i)
            else take i firstS)
      else firstS)"
  by pat_completeness auto
termination
  by (relation "measure (\<lambda>(firstS, lastS, i). length firstS - i)") auto

declare scan_common.simps [simp del]

definition getCommonStringStart :: "string list \<Rightarrow> string" where
  "getCommonStringStart strings =
     (if length strings < 2 then []
      else let sortedStrings = sort strings;
               firstS = sortedStrings ! 0;
               lastS = sortedStrings ! (length sortedStrings - 1)
           in scan_common firstS lastS 0)"

text \<open>\<open>commonStart.slice(0, commonStart.lastIndexOf('/') + 1)\<close>\<close>

definition commonFilePathOf :: "string \<Rightarrow> string" where
  "commonFilePathOf commonStart =
     take (nat (lastIndexOf commonStart (CHR ''/'') + 1)) commonStart"

text \<open>
  The property the specification asks of the displayed prefix, in its words: \<open>p\<close> is the
  longest string prefix shared by every path, and the displayed prefix is \<open>p\<close> cut back
  to its last \<open>/\<close>, the separator included.
\<close>

definition longest_shared_prefix :: "string list \<Rightarrow> string \<Rightarrow> bool" where
  "longest_shared_prefix paths p \<longleftrightarrow>
     (\<forall>s\<in>set paths. prefix p s) \<and> (\<forall>q. (\<forall>s\<in>set paths. prefix q s) \<longrightarrow> prefix q p)"

definition truncate_to_separator :: "string \<Rightarrow> string" where
  "truncate_to_separator p = rev (dropWhile (\<lambda>c. c \<noteq> CHR ''/'') (rev p))"

definition directory_aligned_prefix :: "string list \<Rightarrow> string \<Rightarrow> bool" where
  "directory_aligned_prefix paths d \<longleftrightarrow>
     (\<exists>p. longest_shared_prefix paths p \<and> d = truncate_to_separator p)"

text \<open>
  \<open>`${n}`\<close> for a count \<open>n\<close>: the decimal digits of a natural number.
\<close>

fun show_nat :: "nat \<Rightarrow> string" where
  "show_nat n =
     (if n < 10 then [char_of (48 + n)]
      else show_nat (n div 10) @ [char_of (48 + n mod 10)])"

declare show_nat.simps [simp del]

section \<open>Branch statistics\<close>

text \<open>
  Sizes are byte counts, natural numbers here (the source's numbers are doubles, exact
  on the integers a byte count can reach); a difference of sizes is an integer.

  The object \<open>files\<close> of a \<open>BranchStats\<close> is the list of its own properties, key and
  value, in the order \<open>Object.entries\<close> and \<open>Object.keys\<close> enumerate them. The keys of
  an object are distinct: the theorems assume \<open>distinct (map fst (files s))\<close>. The read
  \<open>files[k]\<close> is \<open>map_of (files s) k\<close>, with \<open>None\<close> for \<open>undefined\<close>, and the write
  \<open>files[k] = v\<close> is \<open>AList.update k v (files s)\<close>: a present key keeps its place, a new
  key goes last. Keys are relative file paths; a key that names a property every
  object inherits (such as \<open>constructor\<close>) or that is a canonical array index is not
  considered.
\<close>

record FileMetric =
  size_b :: nat
  gzip :: nat
  brotli :: nat

record BranchStats =
  totalSize :: nat
  totalGzip :: nat
  totalBrotli :: nat
  files :: "(string \<times> FileMetric) list"

definition commentHash :: string where
  "commentHash = ''<!-- @alex-page was here -->''"

section \<open>The report: \<open>getStatComment\<close>\<close>

text \<open>
  \<open>prettyBytes\<close> comes from the npm package \<open>pretty-bytes\<close>, which is not part of the
  repository: the renderer takes it as a parameter. \<open>prettyBytes False n\<close> stands for
  \<open>prettyBytes(n)\<close> and \<open>prettyBytes True n\<close> for \<open>prettyBytes(n, {signed: true})\<close>.
\<close>

type_synonym formatter = "bool \<Rightarrow> int \<Rightarrow> string"

record FileTotals =
  changed :: nat
  removed :: nat
  added :: nat

definition getDiff :: "formatter \<Rightarrow> nat \<Rightarrow> nat \<Rightarrow> string" where
  "getDiff prettyBytes a b = prettyBytes True (int a - int b)"

definition allFilePaths :: "BranchStats \<Rightarrow> BranchStats \<Rightarrow> string list" where
  "allFilePaths targetStats prStats =
     js_Set (map fst (files prStats) @ map fst (files targetStats))"

definition commonFilePath :: "BranchStats \<Rightarrow> BranchStats \<Rightarrow> string" where
  "commonFilePath targetStats prStats =
     commonFilePathOf (getCommonStringStart (allFilePaths targetStats prStats))"

text \<open>
  A cell of either table, \<open><sub>${current} `${delta}`</sub>\<close>, and the three kinds of
  rows pushed to \<open>fileColumns\<close>. \<open>cfp\<close> is \<open>commonFilePath\<close>;
  \<open>filePath.slice(cfp.length)\<close> is \<open>drop (length cfp) filePath\<close>.
\<close>

definition cell :: "string \<Rightarrow> string \<Rightarrow> string" where
  "cell current delta = ''<sub>'' @ current @ '' `'' @ delta @ ''`</sub>''"

definition addedRow :: "formatter \<Rightarrow> string \<Rightarrow> string \<Rightarrow> FileMetric \<Rightarrow> string" where
  "addedRow prettyBytes cfp filePath m =
     ''| <sub>'' @ drop (length cfp) filePath @ ''</sub> | ''
     @ cell (prettyBytes False (int (size_b m))) (prettyBytes True (int (size_b m))) @ '' | ''
     @ cell (prettyBytes False (int (gzip m))) (prettyBytes True (int (gzip m))) @ '' | ''
     @ cell (prettyBytes False (int (brotli m))) (prettyBytes True (int (brotli m))) @ '' |''"

definition changedRow ::
  "formatter \<Rightarrow> string \<Rightarrow> string \<Rightarrow> FileMetric \<Rightarrow> FileMetric \<Rightarrow> string" where
  "changedRow prettyBytes cfp filePath m targetFile =
     ''| <sub>'' @ drop (length cfp) filePath @ ''</sub> | ''
     @ cell (prettyBytes False (int (size_b m)))
         (getDiff prettyBytes (size_b m) (size_b targetFile)) @ '' | ''
     @ cell (prettyBytes False (int (gzip m)))
         (getDiff prettyBytes (gzip m) (gzip targetFile)) @ '' | ''
     @ cell (prettyBytes False (int (brotli m)))
         (getDiff prettyBytes (brotli m) (brotli targetFile)) @ '' |''"

definition removedRow :: "formatter \<Rightarrow> string \<Rightarrow> string \<Rightarrow> FileMetric \<Rightarrow> string" where
  "removedRow prettyBytes cfp filePath m =
     ''| <sub>~'' @ drop (length cfp) filePath @ ''~</sub> | ''
     @ cell ''0 B'' (prettyBytes True (- 1 * int (size_b m))) @ '' | ''
     @ cell ''0 B'' (prettyBytes True (- 1 * int (gzip m))) @ '' | ''
     @ cell ''0 B'' (prettyBytes True (- 1 * int (brotli m))) @ '' |''"

text \<open>
  The two \<open>forEach\<close> loops, each a fold of its body over the entries of one \<open>files\<close>
  object; the state is \<open>(fileTotals, fileColumns)\<close>.
\<close>

fun prFileStep ::
  "formatter \<Rightarrow> BranchStats \<Rightarrow> string \<Rightarrow> string \<times> FileMetric \<Rightarrow>
   FileTotals \<times> string list \<Rightarrow> FileTotals \<times> string list" where
  "prFileStep prettyBytes targetStats cfp (filePath, m) (fileTotals, fileColumns) =
     (case map_of (files targetStats) filePath of
        None \<Rightarrow>
          (fileTotals\<lparr>added := added fileTotals + 1\<rparr>,
           fileColumns @ [addedRow prettyBytes cfp filePath m])
      | Some targetFile \<Rightarrow>
          if size_b m \<noteq> size_b targetFile
          then (fileTotals\<lparr>changed := changed fileTotals + 1\<rparr>,
                fileColumns @ [changedRow prettyBytes cfp filePath m targetFile])
          else (fileTotals, fileColumns))"

fun targetFileStep ::
  "formatter \<Rightarrow> BranchStats \<Rightarrow> string \<Rightarrow> string \<times> FileMetric \<Rightarrow>
   FileTotals \<times> string list \<Rightarrow> FileTotals \<times> string list" where
  "targetFileStep prettyBytes prStats cfp (filePath, m) (fileTotals, fileColumns) =
     (case map_of (files prStats) filePath of
        None \<Rightarrow>
          (fileTotals\<lparr>removed := removed fileTotals + 1\<rparr>,
           fileColumns @ [removedRow prettyBytes cfp filePath m])
      | Some prFile \<Rightarrow> (fileTotals, fileColumns))"

definition fileTable ::
  "formatter \<Rightarrow> BranchStats \<Rightarrow> BranchStats \<Rightarrow> FileTotals \<times> string list" where
  "fileTable prettyBytes targetStats prStats =
     (let cfp = commonFilePath targetStats prStats;
          st0 = (\<lparr>changed = 0, removed = 0, added = 0\<rparr>, []);
          st1 = fold (prFileStep prettyBytes targetStats cfp) (files prStats) st0
      in fold (targetFileStep prettyBytes prStats cfp) (files targetStats) st1)"

definition pluralize :: "nat \<Rightarrow> string \<Rightarrow> string \<Rightarrow> string" where
  "pluralize count single plural = (if count = 1 then single else plural)"

definition detailsSummaryText :: "FileTotals \<Rightarrow> string list" where
  "detailsSummaryText fileTotals =
     (let t1 = (if changed fileTotals \<noteq> 0
                then [show_nat (changed fileTotals) @ '' ''
                      @ pluralize (changed fileTotals) ''file changed'' ''files changed'']
                else []);
          t2 = (if added fileTotals \<noteq> 0
                then t1 @ [show_nat (added fileTotals) @ '' ''
                      @ pluralize (added fileTotals) ''file added'' ''files added'']
                else t1);
          t3 = (if removed fileTotals \<noteq> 0
                then t2 @ [show_nat (removed fileTotals) @ '' ''
                      @ pluralize (removed fileTotals) ''file removed'' ''files removed'']
                else t2)
      in t3)"

text \<open>
  The template literal that \<open>getStatComment\<close> returns, cut at the \<open><details>\<close> element:
  \<open>reportTotals\<close> is the text before it (the marker, the summary sentence and the table
  of totals), \<open>reportDetails\<close> the text after its \<open><summary>\<close> line (the note on the
  common path, the table of files and the closing tag).
\<close>

definition reportTotals :: "formatter \<Rightarrow> BranchStats \<Rightarrow> BranchStats \<Rightarrow> string" where
  "reportTotals prettyBytes targetStats prStats =
     (let totalDiff_size = getDiff prettyBytes (totalSize prStats) (totalSize targetStats);
          totalDiff_gzip = getDiff prettyBytes (totalGzip prStats) (totalGzip targetStats);
          totalDiff_brotli = getDiff prettyBytes (totalBrotli prStats) (totalBrotli targetStats)
      in commentHash
         @ ''\<newline><sub>**[[filediff]](https://github.com/shopify/filediff)** The total bytes ''
         @ (if startsWith totalDiff_size ''+'' then ''added'' else ''removed'')
         @ '' are:</sub>\<newline>  | uncompressed | gzip | brotli |\<newline>  |:--- |:--- |:--- |\<newline>  | ''
         @ cell (prettyBytes False (int (totalSize prStats))) totalDiff_size @ '' | ''
         @ cell (prettyBytes False (int (totalGzip prStats))) totalDiff_gzip @ '' | ''
         @ cell (prettyBytes False (int (totalBrotli prStats))) totalDiff_brotli
         @ '' |\<newline>\<newline>\<newline>'')"

definition reportDetails :: "string \<Rightarrow> string list \<Rightarrow> string" where
  "reportDetails cfp fileColumns =
     ''\<newline>''
     @ (if cfp \<noteq> [] then ''<sub>All changed files are in '' @ cfp @ ''</sub>'' else [])
     @ ''\<newline>\<newline>| Filename | size  | gzip | brotli |\<newline>|:--- | ---:| ---:| ---:|\<newline>''
     @ join ''\<newline>'' fileColumns
     @ ''\<newline>  </details>\<newline>  ''"

definition getStatComment ::
  "formatter \<Rightarrow> BranchStats \<Rightarrow> BranchStats \<Rightarrow> bool \<Rightarrow> string" where
  "getStatComment prettyBytes targetStats prStats fileDetailsOpen =
     (let cfp = commonFilePath targetStats prStats;
          fileTotals = fst (fileTable prettyBytes targetStats prStats);
          fileColumns = snd (fileTable prettyBytes targetStats prStats)
      in reportTotals prettyBytes targetStats prStats
         @ ''  <details'' @ (if fileDetailsOpen then '' open'' else []) @ ''>\<newline>''
         @ ''    <summary><sub>'' @ join '', '' (detailsSummaryText fileTotals)
         @ ''</sub></summary>\<newline>''
         @ reportDetails cfp fileColumns)"

text \<open>
  The classification of the specification (its \<open>FileChange\<close>), in its words: a path of
  the union is \<open>Added\<close> when only the subject (pull request) branch has it, \<open>Removed\<close>
  when only the target branch has it, \<open>Modified\<close> when both have it with different
  sizes and \<open>Unchanged\<close> when both have it with the same size. A path of neither
  branch has no class.
\<close>

datatype FileChange = Added | Removed | Modified | Unchanged

definition classify :: "BranchStats \<Rightarrow> BranchStats \<Rightarrow> string \<Rightarrow> FileChange option" where
  "classify targetStats prStats p =
     (case map_of (files prStats) p of
        None \<Rightarrow> (case map_of (files targetStats) p of
                   None \<Rightarrow> None
                 | Some t \<Rightarrow> Some Removed)
      | Some s \<Rightarrow> (case map_of (files targetStats) p of
                     None \<Rightarrow> Some Added
                   | Some t \<Rightarrow> if size_b s \<noteq> size_b t then Some Modified
                              else Some Unchanged))"





text \<open>
  An instance of the formatter for the examples: what \<open>pretty-bytes\<close> prints for an
  integer of magnitude below 1000, where it scales nothing: the sign, the digits and
  the unit \<open>B\<close>; a signed zero is printed with a leading blank. It is used on such
  numbers only.
\<close>

definition prettyBytes_small :: formatter where
  "prettyBytes_small signed n =
     (if signed \<and> n = 0 then '' 0 B''
      else (if n < 0 then ''-'' else if signed then ''+'' else []) @ show_nat (nat \<bar>n\<bar>) @ '' B'')"

section \<open>The classification logged by \<open>run\<close>\<close>

text \<open>
  \<open>run\<close> walks the set of all file paths and pushes each path to one of three arrays of
  \<open>fileChanges\<close>, or to none. \<open>!targetFile\<close> and \<open>!prFile\<close> test for \<open>undefined\<close>: an
  entry of \<open>files\<close> is an object, which is never falsy.
\<close>

record FileChanges =
  added_paths :: "string list"
  removed_paths :: "string list"
  modified_paths :: "string list"

definition classifyStep ::
  "BranchStats \<Rightarrow> BranchStats \<Rightarrow> string \<Rightarrow> FileChanges \<Rightarrow> FileChanges" where
  "classifyStep targetStats prStats filePath fileChanges =
     (case map_of (files targetStats) filePath of
        None \<Rightarrow> fileChanges\<lparr>added_paths := added_paths fileChanges @ [filePath]\<rparr>
      | Some targetFile \<Rightarrow>
          (case map_of (files prStats) filePath of
             None \<Rightarrow> fileChanges\<lparr>removed_paths := removed_paths fileChanges @ [filePath]\<rparr>
           | Some prFile \<Rightarrow>
               if size_b prFile \<noteq> size_b targetFile
               then fileChanges\<lparr>modified_paths := modified_paths fileChanges @ [filePath]\<rparr>
               else fileChanges))"

definition fileChangesOf :: "BranchStats \<Rightarrow> BranchStats \<Rightarrow> FileChanges" where
  "fileChangesOf targetStats prStats =
     fold (classifyStep targetStats prStats) (allFilePaths targetStats prStats)
       \<lparr>added_paths = [], removed_paths = [], modified_paths = []\<rparr>"

section \<open>Example statistics\<close>







section \<open>The outside world\<close>

text \<open>
  Everything \<open>run\<close> does to the outside world is an event of a log, in the order in
  which the model performs it: a line written with \<open>info\<close>, a recursive copy, an
  external command, a glob expansion, the measurement of a file (\<open>stat\<close>, \<open>readFile\<close>,
  \<open>gzip\<close> and \<open>brotliCompress\<close>), the reading of an action input, a call of the
  comment API and \<open>setFailed\<close>.
\<close>

datatype error =
    MissingToken
  | InputRequired string
  | CopyFailed string string
  | ExecFailed string "string list" string
  | GlobFailed "string list" string
  | MeasureFailed string
  | ApiFailed

datatype event =
    Info string
  | Copy string string
  | Exec string "string list" string
  | Glob "string list" string
  | Measure string
  | GetInput string
  | ListComments
  | DeleteComment nat
  | CreateComment string
  | SetFailed error

text \<open>
  The answers of the outside world are parameters of the model. Each takes the log so
  far, so an answer may depend on everything done before: \<open>sys_cp\<close> and \<open>sys_exec\<close>
  tell whether a copy or a command succeeds (\<open>exec\<close> rejects on a non-zero exit code),
  \<open>sys_globby\<close> gives the absolute paths that match the patterns, \<open>sys_measure\<close> the
  size of a file and of its gzip and brotli compressions, and \<open>sys_api\<close> whether a call
  of the comment API succeeds; \<open>None\<close> and \<open>False\<close> stand for a rejected promise.
  \<open>sys_prettyBytes\<close> is the formatter of the package \<open>pretty-bytes\<close>.
\<close>

record sys =
  sys_cp :: "event list \<Rightarrow> string \<Rightarrow> string \<Rightarrow> bool"
  sys_exec :: "event list \<Rightarrow> string \<Rightarrow> string list \<Rightarrow> string \<Rightarrow> bool"
  sys_globby :: "event list \<Rightarrow> string list \<Rightarrow> string \<Rightarrow> string list option"
  sys_measure :: "event list \<Rightarrow> string \<Rightarrow> FileMetric option"
  sys_api :: "event list \<Rightarrow> event \<Rightarrow> bool"
  sys_prettyBytes :: formatter

section \<open>Collecting the statistics of a branch\<close>

text \<open>
  \<open>file.split(`${branch}/`).slice(1)[0]\<close>: the piece after the first occurrence of the
  branch name followed by \<open>/\<close>, up to the next occurrence; \<open>undefined\<close> (\<open>None\<close>) when the
  separator does not occur.
\<close>

definition pathAfterBranch :: "string \<Rightarrow> string \<Rightarrow> string option" where
  "pathAfterBranch file branch =
     (case drop 1 (js_split file (branch @ ''/'')) of
        [] \<Rightarrow> None
      | filePath # rest \<Rightarrow> Some filePath)"

definition fileKey :: "string \<Rightarrow> string \<Rightarrow> string" where
  "fileKey file branch =
     (case pathAfterBranch file branch of
        None \<Rightarrow> ''undefined''
      | Some k \<Rightarrow> k)"

text \<open>
  \<open>getFileStats\<close>. The four awaited calls are one measurement of the file; a rejection
  of any of them rejects the promise. The key of the file is \<open>fileKey\<close>: \<open>undefined\<close> used as a
  property key is the key \<open>undefined\<close>.
\<close>

definition getFileStats ::
  "sys \<Rightarrow> string \<Rightarrow> string \<Rightarrow> BranchStats \<Rightarrow> event list \<Rightarrow>
   (error + BranchStats) \<times> event list" where
  "getFileStats s file branch branchStats log =
     (case sys_measure s log file of
        None \<Rightarrow> (Inl (MeasureFailed file), log @ [Measure file])
      | Some m \<Rightarrow>
          let filePath = fileKey file branch
          in (Inr (branchStats
                \<lparr>totalSize := totalSize branchStats + size_b m,
                 totalGzip := totalGzip branchStats + gzip m,
                 totalBrotli := totalBrotli branchStats + brotli m,
                 files := AList.update filePath
                   \<lparr>size_b = size_b m, gzip = gzip m, brotli = brotli m\<rparr>
                   (files branchStats)\<rparr>),
              log @ [Measure file]))"

text \<open>
  \<open>Promise.all(files.map((file) => getFileStats(file, branch, branchStats)))\<close>. The
  model runs the files one after the other, in the order of the list, and stops at the
  first rejection.
\<close>

fun collectFiles ::
  "sys \<Rightarrow> string \<Rightarrow> string list \<Rightarrow> BranchStats \<Rightarrow> event list \<Rightarrow>
   (error + BranchStats) \<times> event list" where
  "collectFiles s branch [] branchStats log = (Inr branchStats, log)"
| "collectFiles s branch (file # rest) branchStats log =
     (case getFileStats s file branch branchStats log of
        (Inl e, log') \<Rightarrow> (Inl e, log')
      | (Inr branchStats', log') \<Rightarrow> collectFiles s branch rest branchStats' log')"

subsection \<open>The build script\<close>

text \<open>
  White space as \<open>trim\<close> and the regular expression \<open>\s\<close> see it, among the code units
  a \<^typ>\<open>char\<close> can hold: tab, line feed, vertical tab, form feed, carriage return,
  space and no-break space.
\<close>

definition is_space :: "char \<Rightarrow> bool" where
  "is_space c \<longleftrightarrow>
     c \<in> set [CHR 0x09, CHR 0x0A, CHR 0x0B, CHR 0x0C, CHR 0x0D, CHR 0x20, CHR 0xA0]"

definition trim :: "string \<Rightarrow> string" where
  "trim s = rev (dropWhile is_space (rev (dropWhile is_space s)))"

text \<open>
  \<open>cmd.split(/\s+/)\<close>: every maximal run of white space separates two pieces; a run at
  the start or at the end leaves an empty piece there.
\<close>

function split_space_from :: "string \<Rightarrow> string \<Rightarrow> string list" where
  "split_space_from acc [] = [acc]"
| "split_space_from acc (c # cs) =
     (if is_space c then acc # split_space_from [] (dropWhile is_space cs)
      else split_space_from (acc @ [c]) cs)"
  by pat_completeness auto
termination
  by (relation "measure (\<lambda>(acc, s). length s)")
    (auto simp: le_imp_less_Suc length_dropWhile_le)

definition split_space :: "string \<Rightarrow> string list" where
  "split_space s = split_space_from [] s"

text \<open>
  The loop over the commands: \<open>const [cmdName, ...cmdArgs] = cmd.split(/\s+/)\<close>, then
  \<open>await exec(cmdName, cmdArgs, {cwd})\<close>. A rejected \<open>exec\<close> leaves the loop and the
  function. (\<open>split\<close> returns at least one piece, so \<open>cmdName\<close> is never \<open>undefined\<close>;
  the model counts that case as a failure.)
\<close>

fun runCommands ::
  "sys \<Rightarrow> string \<Rightarrow> string list \<Rightarrow> event list \<Rightarrow> (error + unit) \<times> event list" where
  "runCommands s cwd [] log = (Inr (), log)"
| "runCommands s cwd (cmd # cmds) log =
     (case split_space cmd of
        [] \<Rightarrow> (Inl (ExecFailed [] [] cwd), log)
      | cmdName # cmdArgs \<Rightarrow>
          if sys_exec s log cmdName cmdArgs cwd
          then runCommands s cwd cmds (log @ [Exec cmdName cmdArgs cwd])
          else (Inl (ExecFailed cmdName cmdArgs cwd), log @ [Exec cmdName cmdArgs cwd]))"

definition runScript ::
  "sys \<Rightarrow> string \<Rightarrow> string \<Rightarrow> string \<Rightarrow> event list \<Rightarrow> (error + unit) \<times> event list" where
  "runScript s branch cwd script log =
     (if script \<noteq> []
      then let commands = map trim (js_split script ''&&'')
           in runCommands s cwd commands
                (log @ [Info (''['' @ branch @ ''] Running '' @ script)])
      else (Inr (), log))"

subsection \<open>\<open>getBranchStats\<close>\<close>

definition sampleFilesInfo :: "string \<Rightarrow> string list \<Rightarrow> string" where
  "sampleFilesInfo branch fileList =
     (let sampleFiles = map (\<lambda>f. case pathAfterBranch f branch of
                                    None \<Rightarrow> []
                                  | Some k \<Rightarrow> k) (take 3 fileList)
      in ''['' @ branch @ ''] Sample files: '' @ join '', '' sampleFiles
         @ (if length fileList > 3 then ''...'' else []))"

definition getBranchStats ::
  "sys \<Rightarrow> string \<Rightarrow> string \<Rightarrow> string \<Rightarrow> event list \<Rightarrow>
   (error + BranchStats) \<times> event list" where
  "getBranchStats s branch dirGlob script log0 =
     (let log1 = log0 @ [Info (''['' @ branch @ ''] copy repo and git checkout '')];
          tempDir = ''.filediff'';
          cwd = ''../'' @ tempDir @ ''/'' @ branch;
          log2 = log1 @ [Copy ''.'' cwd];
          log3 = log2 @ [Exec ''git'' [''fetch'', ''origin'', branch] cwd];
          log4 = log3 @ [Exec ''git'' [''checkout'', branch] cwd]
      in if \<not> sys_cp s log1 ''.'' cwd then (Inl (CopyFailed ''.'' cwd), log2)
         else if \<not> sys_exec s log2 ''git'' [''fetch'', ''origin'', branch] cwd
         then (Inl (ExecFailed ''git'' [''fetch'', ''origin'', branch] cwd), log3)
         else if \<not> sys_exec s log3 ''git'' [''checkout'', branch] cwd
         then (Inl (ExecFailed ''git'' [''checkout'', branch] cwd), log4)
         else
           case runScript s branch cwd script log4 of
             (Inl e, log5) \<Rightarrow> (Inl e, log5)
           | (Inr u, log5) \<Rightarrow>
               let patterns = js_split dirGlob '','' in
               case sys_globby s log5 patterns cwd of
                 None \<Rightarrow> (Inl (GlobFailed patterns cwd), log5 @ [Glob patterns cwd])
               | Some fileList \<Rightarrow>
                   let log6 = log5 @ [Glob patterns cwd,
                          Info (''['' @ branch @ ''] Getting file stats for ''
                                @ show_nat (length fileList) @ '' files'')];
                       log7 = (if length fileList > 0
                               then log6 @ [Info (sampleFilesInfo branch fileList)]
                               else log6);
                       branchStats =
                         \<lparr>totalSize = 0, totalGzip = 0, totalBrotli = 0, files = []\<rparr>
                   in case collectFiles s branch fileList branchStats log7 of
                        (Inl e, log8) \<Rightarrow> (Inl e, log8)
                      | (Inr stats, log8) \<Rightarrow>
                          (Inr stats,
                           log8 @ [Info (''['' @ branch @ ''] Completed file stats'')]))"

text \<open>
  The build script in the specification's words: an ordered list of command and
  arguments, executed in sequence. \<open>parseCommand\<close> is the tuple of one trimmed
  segment, \<open>execEvent\<close> its execution in the workspace directory, and \<open>all_succeed\<close>
  says that each command of a list succeeds when its turn comes.
\<close>

definition parseCommand :: "string \<Rightarrow> string \<times> string list" where
  "parseCommand cmd = (hd (split_space cmd), tl (split_space cmd))"

definition execEvent :: "string \<Rightarrow> string \<times> string list \<Rightarrow> event" where
  "execEvent cwd cmd = Exec (fst cmd) (snd cmd) cwd"

fun all_succeed ::
  "sys \<Rightarrow> string \<Rightarrow> (string \<times> string list) list \<Rightarrow> event list \<Rightarrow> bool" where
  "all_succeed s cwd [] log = True"
| "all_succeed s cwd (cmd # cmds) log =
     (sys_exec s log (fst cmd) (snd cmd) cwd
      \<and> all_succeed s cwd cmds (log @ [execEvent cwd cmd]))"

text \<open>
  A system for the examples: every copy, command and API call succeeds, and a build
  leaves three files under \<open>dist/\<close> of the workspace of branch \<open>main\<close>.
\<close>

definition example_sys :: sys where
  "example_sys =
     \<lparr>sys_cp = (\<lambda>log src dst. True),
      sys_exec = (\<lambda>log cmd args cwd. True),
      sys_globby = (\<lambda>log patterns cwd.
         Some [''/home/runner/work/app/.filediff/main/dist/x.js'',
               ''/home/runner/work/app/.filediff/main/dist/w.js'',
               ''/home/runner/work/app/.filediff/main/dist/z.js'']),
      sys_measure = (\<lambda>log file.
         if file = ''/home/runner/work/app/.filediff/main/dist/x.js''
         then Some \<lparr>size_b = 100, gzip = 60, brotli = 50\<rparr>
         else if file = ''/home/runner/work/app/.filediff/main/dist/w.js''
         then Some \<lparr>size_b = 7, gzip = 27, brotli = 11\<rparr>
         else if file = ''/home/runner/work/app/.filediff/main/dist/z.js''
         then Some \<lparr>size_b = 200, gzip = 100, brotli = 96\<rparr>
         else None),
      sys_api = (\<lambda>log call. True),
      sys_prettyBytes = prettyBytes_small\<rparr>"

text \<open>
  The same system with a build that fails at \<open>npm run build\<close>.
\<close>

definition failing_build_sys :: sys where
  "failing_build_sys =
     example_sys\<lparr>sys_exec := (\<lambda>log cmd args cwd. \<not> (cmd = ''npm'' \<and> args = [''run'', ''build'']))\<rparr>"

text \<open>
  A system whose glob matches two files of a package named like the branch.
\<close>

definition collision_sys :: sys where
  "collision_sys =
     example_sys
       \<lparr>sys_globby := (\<lambda>log patterns cwd.
          Some [''/home/runner/work/app/.filediff/main/packages/main/a.js'',
                ''/home/runner/work/app/.filediff/main/packages/main/b.js'']),
        sys_measure := (\<lambda>log file.
          if file = ''/home/runner/work/app/.filediff/main/packages/main/a.js''
          then Some \<lparr>size_b = 10, gzip = 30, brotli = 14\<rparr>
          else if file = ''/home/runner/work/app/.filediff/main/packages/main/b.js''
          then Some \<lparr>size_b = 20, gzip = 40, brotli = 24\<rparr>
          else None)\<rparr>"

section \<open>The orchestrator: \<open>run\<close>\<close>

text \<open>
  What \<open>run\<close> reads: the environment variable \<open>GITHUB_TOKEN\<close>, the \<open>repository\<close> and
  \<open>pull_request\<close> objects of the event payload (with the fields \<open>run\<close> uses), and the
  inputs the workflow supplies.
\<close>

record repository =
  owner_login :: string
  repo_name :: string

record pull_request =
  head_ref :: string
  pr_number :: nat

record env =
  GITHUB_TOKEN :: "string option"
  payload_repository :: "repository option"
  payload_pull_request :: "pull_request option"
  supplied :: "string \<Rightarrow> string option"

text \<open>
  What \<open>run\<close> changes: the log of events and the comments of the pull request. A comment
  has an id and a body, which the API may leave out.
\<close>

record comment =
  comment_id :: nat
  body :: "string option"

record state =
  events :: "event list"
  comments :: "comment list"

text \<open>
  Modelled from the spec: \<open>action.yml\<close>, which declares the inputs of the action and
  their defaults, is not under \<open>src/\<close>. The specification gives \<open>replace_comment\<close> the
  default \<open>true\<close> and \<open>file_details_open\<close> the default \<open>false\<close>; the other inputs have none.
\<close>

definition action_default :: "string \<Rightarrow> string" where
  "action_default name =
     (if name = ''replace_comment'' then ''true''
      else if name = ''file_details_open'' then ''false''
      else [])"

text \<open>
  \<open>getInput(name, {required})\<close> of \<open>@actions/core\<close>: the value the workflow supplies, or
  the default of the action; a required input that is empty throws; the value is
  returned trimmed.
\<close>

definition getInput :: "env \<Rightarrow> string \<Rightarrow> bool \<Rightarrow> error + string" where
  "getInput e name required =
     (let val = (case supplied e name of None \<Rightarrow> action_default name | Some v \<Rightarrow> v)
      in if required \<and> val = [] then Inl (InputRequired name) else Inr (trim val))"

definition info :: "string \<Rightarrow> state \<Rightarrow> state" where
  "info msg st = st\<lparr>events := events st @ [Info msg]\<rparr>"

text \<open>
  The catch block: \<open>setFailed\<close> with the message of the error.
\<close>

datatype outcome = NoPullRequest | NoChanges | Posted | Failed error

definition fail :: "error \<Rightarrow> state \<Rightarrow> outcome \<times> state" where
  "fail e st = (Failed e, st\<lparr>events := events st @ [SetFailed e]\<rparr>)"

subsection \<open>The comment API\<close>

text \<open>
  The three calls \<open>run\<close> makes, all for the pull request of the payload. The response of
  \<open>listComments\<close> is taken to hold every comment of the pull request (the paging of the
  endpoint is outside the source). \<open>deleteComment\<close> removes the comment with the given
  id, \<open>createComment\<close> appends a comment with an id not in use.
\<close>

definition fresh_id :: "comment list \<Rightarrow> nat" where
  "fresh_id cs = Suc (fold max (map comment_id cs) 0)"

definition listComments :: "sys \<Rightarrow> state \<Rightarrow> (error + comment list) \<times> state" where
  "listComments s st =
     (if sys_api s (events st) ListComments
      then (Inr (comments st), st\<lparr>events := events st @ [ListComments]\<rparr>)
      else (Inl ApiFailed, st\<lparr>events := events st @ [ListComments]\<rparr>))"

definition deleteComment :: "sys \<Rightarrow> nat \<Rightarrow> state \<Rightarrow> (error + unit) \<times> state" where
  "deleteComment s cid st =
     (if sys_api s (events st) (DeleteComment cid)
      then (Inr (),
            st\<lparr>events := events st @ [DeleteComment cid],
               comments := filter (\<lambda>c. comment_id c \<noteq> cid) (comments st)\<rparr>)
      else (Inl ApiFailed, st\<lparr>events := events st @ [DeleteComment cid]\<rparr>))"

definition createComment :: "sys \<Rightarrow> string \<Rightarrow> state \<Rightarrow> (error + unit) \<times> state" where
  "createComment s commentBody st =
     (if sys_api s (events st) (CreateComment commentBody)
      then (Inr (),
            st\<lparr>events := events st @ [CreateComment commentBody],
               comments := comments st
                 @ [\<lparr>comment_id = fresh_id (comments st), body = Some commentBody\<rparr>]\<rparr>)
      else (Inl ApiFailed, st\<lparr>events := events st @ [CreateComment commentBody]\<rparr>))"

subsection \<open>Publishing the report\<close>

text \<open>\<open>comment.body?.startsWith(commentHash)\<close>\<close>

definition isFilediffComment :: "comment \<Rightarrow> bool" where
  "isFilediffComment c = (case body c of None \<Rightarrow> False | Some b \<Rightarrow> startsWith b commentHash)"

text \<open>The loop over \<open>comments.data\<close>, with its counter \<open>deletedCount\<close>.\<close>

fun deleteFilediffComments ::
  "sys \<Rightarrow> comment list \<Rightarrow> nat \<Rightarrow> state \<Rightarrow> (error + nat) \<times> state" where
  "deleteFilediffComments s [] deletedCount st = (Inr deletedCount, st)"
| "deleteFilediffComments s (c # cs) deletedCount st =
     (if isFilediffComment c
      then (case deleteComment s (comment_id c) st of
              (Inl e, st') \<Rightarrow> (Inl e, st')
            | (Inr u, st') \<Rightarrow> deleteFilediffComments s cs (deletedCount + 1) st')
      else deleteFilediffComments s cs deletedCount st)"

text \<open>The body of \<open>if (replaceComment === 'true')\<close>.\<close>

definition replaceExisting :: "sys \<Rightarrow> state \<Rightarrow> (error + unit) \<times> state" where
  "replaceExisting s st =
     (case listComments s
             (info ''Checking for existing filediff comments to replace...'' st) of
        (Inl e, st1) \<Rightarrow> (Inl e, st1)
      | (Inr data, st1) \<Rightarrow>
          (case deleteFilediffComments s data 0 st1 of
             (Inl e, st2) \<Rightarrow> (Inl e, st2)
           | (Inr deletedCount, st2) \<Rightarrow>
               (Inr (),
                info (if deletedCount > 0
                      then ''Deleted '' @ show_nat deletedCount
                           @ '' existing filediff comment(s)''
                      else ''No existing filediff comments found'') st2)))"

text \<open>The rest of \<open>run\<close> once the total sizes differ.\<close>

definition publish ::
  "sys \<Rightarrow> string \<Rightarrow> string \<Rightarrow> BranchStats \<Rightarrow> BranchStats \<Rightarrow> state \<Rightarrow>
   (error + unit) \<times> state" where
  "publish s replaceComment fileDetailsOpen targetStats prStats st =
     (case (if replaceComment = ''true''
            then replaceExisting s (info ''Size difference detected, generating comment...'' st)
            else (Inr (), info ''Size difference detected, generating comment...'' st)) of
        (Inl e, st1) \<Rightarrow> (Inl e, st1)
      | (Inr u, st1) \<Rightarrow>
          (case createComment s
                  (getStatComment (sys_prettyBytes s) targetStats prStats
                     (fileDetailsOpen = ''true'')) st1 of
             (Inl e, st2) \<Rightarrow> (Inl e, st2)
           | (Inr u, st2) \<Rightarrow> (Inr (), info ''Comment posted successfully to PR'' st2)))"

subsection \<open>Reading the inputs and computing the statistics\<close>

record inputs =
  inp_targetBranch :: string
  inp_dirGlob :: string
  inp_script :: string
  inp_fileDetailsOpen :: string
  inp_replaceComment :: string

definition readInput :: "env \<Rightarrow> string \<Rightarrow> bool \<Rightarrow> state \<Rightarrow> (error + string) \<times> state" where
  "readInput e name required st =
     (getInput e name required, st\<lparr>events := events st @ [GetInput name]\<rparr>)"

definition readInputs :: "env \<Rightarrow> state \<Rightarrow> (error + inputs) \<times> state" where
  "readInputs e st =
     (case readInput e ''target_branch'' True st of
        (Inl err, st1) \<Rightarrow> (Inl err, st1)
      | (Inr tb, st1) \<Rightarrow>
     (case readInput e ''dir_glob'' True st1 of
        (Inl err, st2) \<Rightarrow> (Inl err, st2)
      | (Inr dg, st2) \<Rightarrow>
     (case readInput e ''pre_diff_script'' False st2 of
        (Inl err, st3) \<Rightarrow> (Inl err, st3)
      | (Inr sc, st3) \<Rightarrow>
     (case readInput e ''file_details_open'' False st3 of
        (Inl err, st4) \<Rightarrow> (Inl err, st4)
      | (Inr fdo, st4) \<Rightarrow>
     (case readInput e ''replace_comment'' False st4 of
        (Inl err, st5) \<Rightarrow> (Inl err, st5)
      | (Inr rc, st5) \<Rightarrow>
          (Inr \<lparr>inp_targetBranch = tb, inp_dirGlob = dg, inp_script = sc,
                inp_fileDetailsOpen = fdo, inp_replaceComment = rc\<rparr>, st5))))))"

text \<open>
  \<open>Promise.all([getBranchStats(targetBranch, ...), getBranchStats(prBranch, ...)])\<close>. The
  two aggregations work in separate directories; the model runs the one of the target
  branch first and then the one of the pull request, both to their end, and rejects
  with the error of the first that failed in this order.
\<close>

definition bothBranchStats ::
  "sys \<Rightarrow> inputs \<Rightarrow> string \<Rightarrow> state \<Rightarrow> (error + BranchStats \<times> BranchStats) \<times> state" where
  "bothBranchStats s inp prBranch st =
     (case getBranchStats s (inp_targetBranch inp) (inp_dirGlob inp) (inp_script inp) (events st) of
        (r1, log1) \<Rightarrow>
     (case getBranchStats s prBranch (inp_dirGlob inp) (inp_script inp) log1 of
        (r2, log2) \<Rightarrow>
          (case r1 of
             Inl e \<Rightarrow> (Inl e, st\<lparr>events := log2\<rparr>)
           | Inr targetStats \<Rightarrow>
               (case r2 of
                  Inl e \<Rightarrow> (Inl e, st\<lparr>events := log2\<rparr>)
                | Inr prStats \<Rightarrow> (Inr (targetStats, prStats), st\<lparr>events := log2\<rparr>)))))"

subsection \<open>The comparison log\<close>

definition sampleInfo :: "string \<Rightarrow> string list \<Rightarrow> string" where
  "sampleInfo kind paths =
     ''  Sample '' @ kind @ '' files: '' @ join '', '' (take 3 paths)
     @ (if length paths > 3 then ''...'' else [])"

definition comparisonLog ::
  "formatter \<Rightarrow> string \<Rightarrow> string \<Rightarrow> BranchStats \<Rightarrow> BranchStats \<Rightarrow> event list" where
  "comparisonLog prettyBytes targetBranchName prBranch targetStats prStats =
     (let fileChanges = fileChangesOf targetStats prStats in
      [Info (replicate 50 (CHR ''='')),
       Info ''Comparing branches:'',
       Info (''  Target: '' @ targetBranchName),
       Info (''    - Total size: '' @ prettyBytes False (int (totalSize targetStats))),
       Info (''    - Files: '' @ show_nat (length (files targetStats))),
       Info (''  PR Branch: '' @ prBranch),
       Info (''    - Total size: '' @ prettyBytes False (int (totalSize prStats))),
       Info (''    - Files: '' @ show_nat (length (files prStats))),
       Info (replicate 50 (CHR ''='')),
       Info ''File changes detected:'',
       Info (''  Added: '' @ show_nat (length (added_paths fileChanges))),
       Info (''  Removed: '' @ show_nat (length (removed_paths fileChanges))),
       Info (''  Modified: '' @ show_nat (length (modified_paths fileChanges)))]
      @ (if length (added_paths fileChanges) > 0
         then [Info (sampleInfo ''added'' (added_paths fileChanges))] else [])
      @ (if length (removed_paths fileChanges) > 0
         then [Info (sampleInfo ''removed'' (removed_paths fileChanges))] else [])
      @ (if length (modified_paths fileChanges) > 0
         then [Info (sampleInfo ''modified'' (modified_paths fileChanges))] else []))"

subsection \<open>\<open>run\<close>\<close>

definition compareAndPublish ::
  "sys \<Rightarrow> inputs \<Rightarrow> string \<Rightarrow> BranchStats \<Rightarrow> BranchStats \<Rightarrow> state \<Rightarrow> outcome \<times> state" where
  "compareAndPublish s inp prBranch targetStats prStats st =
     (let st1 = st\<lparr>events := events st
                  @ comparisonLog (sys_prettyBytes s) (inp_targetBranch inp) prBranch
                      targetStats prStats\<rparr>
      in if totalSize targetStats = totalSize prStats
         then (NoChanges,
               info ''Action completed without posting a comment''
                 (info ''No changes detected: Total sizes are identical between branches''
                    st1))
         else (case publish s (inp_replaceComment inp) (inp_fileDetailsOpen inp)
                      targetStats prStats st1 of
                 (Inl e, st2) \<Rightarrow> fail e st2
               | (Inr u, st2) \<Rightarrow> (Posted, st2)))"

definition run :: "sys \<Rightarrow> env \<Rightarrow> state \<Rightarrow> outcome \<times> state" where
  "run s e st =
     (let st1 = info ''Creating filediff comment'' st in
      if (case GITHUB_TOKEN e of None \<Rightarrow> True | Some token \<Rightarrow> token = [])
      then fail MissingToken st1
      else
        (case payload_repository e of
           None \<Rightarrow> (NoPullRequest, st1)
         | Some repo \<Rightarrow>
        (case payload_pull_request e of
           None \<Rightarrow> (NoPullRequest, st1)
         | Some pr \<Rightarrow>
        (case readInputs e st1 of
           (Inl err, st2) \<Rightarrow> fail err st2
         | (Inr inp, st2) \<Rightarrow>
        (case bothBranchStats s inp (head_ref pr) st2 of
           (Inl err, st3) \<Rightarrow> fail err st3
         | (Inr stats, st3) \<Rightarrow>
             compareAndPublish s inp (head_ref pr) (fst stats) (snd stats) st3)))))"

text \<open>
  Environments, a state and a system for the examples: a pull request from \<open>feature\<close>
  against \<open>main\<close>, the same event without a token, an event that is no pull request,
  two marked comments among three, and a system in which the pull-request branch lacks
  \<open>z.js\<close>.
\<close>

definition example_env :: env where
  "example_env =
     \<lparr>GITHUB_TOKEN = Some ''ghs_token'',
      payload_repository = Some \<lparr>owner_login = ''Shopify'', repo_name = ''app''\<rparr>,
      payload_pull_request = Some \<lparr>head_ref = ''feature'', pr_number = 7\<rparr>,
      supplied = (\<lambda>name.
        if name = ''target_branch'' then Some ''main''
        else if name = ''dir_glob'' then Some ''dist/**''
        else None)\<rparr>"

definition keep_comments_env :: env where
  "keep_comments_env =
     example_env\<lparr>supplied := (\<lambda>name.
        if name = ''replace_comment'' then Some ''false'' else supplied example_env name)\<rparr>"

definition push_event_env :: env where
  "push_event_env = example_env\<lparr>payload_pull_request := None\<rparr>"

definition no_token_env :: env where
  "no_token_env = push_event_env\<lparr>GITHUB_TOKEN := None\<rparr>"

definition example_state :: state where
  "example_state =
     \<lparr>events = [],
      comments =
        [\<lparr>comment_id = 11, body = Some ''<!-- @alex-page was here -->\<newline>old report''\<rparr>,
         \<lparr>comment_id = 12, body = Some ''looks good''\<rparr>,
         \<lparr>comment_id = 13, body = Some ''<!-- @alex-page was here -->''\<rparr>]\<rparr>"

definition two_branch_sys :: sys where
  "two_branch_sys =
     example_sys
       \<lparr>sys_globby := (\<lambda>log patterns cwd.
          if cwd = ''../.filediff/main''
          then Some [''/home/runner/work/app/.filediff/main/dist/x.js'',
                     ''/home/runner/work/app/.filediff/main/dist/z.js'']
          else Some [''/home/runner/work/app/.filediff/feature/dist/x.js'']),
        sys_measure := (\<lambda>log file.
          if file = ''/home/runner/work/app/.filediff/main/dist/x.js''
          then Some \<lparr>size_b = 100, gzip = 60, brotli = 50\<rparr>
          else if file = ''/home/runner/work/app/.filediff/main/dist/z.js''
          then Some \<lparr>size_b = 200, gzip = 100, brotli = 96\<rparr>
          else if file = ''/home/runner/work/app/.filediff/feature/dist/x.js''
          then Some \<lparr>size_b = 100, gzip = 60, brotli = 50\<rparr>
          else None)\<rparr>"

definition same_size_sys :: sys where
  "same_size_sys =
     two_branch_sys
       \<lparr>sys_measure := (\<lambda>log file.
          if file = ''/home/runner/work/app/.filediff/main/dist/x.js''
          then Some \<lparr>size_b = 100, gzip = 60, brotli = 50\<rparr>
          else if file = ''/home/runner/work/app/.filediff/main/dist/z.js''
          then Some \<lparr>size_b = 200, gzip = 100, brotli = 96\<rparr>
          else if file = ''/home/runner/work/app/.filediff/feature/dist/x.js''
          then Some \<lparr>size_b = 300, gzip = 90, brotli = 70\<rparr>
          else None)\<rparr>"

section \<open>Properties of the common start\<close>

lemma scan_common_from:
  "i \<le> length firstS \<Longrightarrow>
   scan_common firstS lastS i =
     take i firstS @ longest_common_prefix (drop i firstS) (drop i lastS)"
proof (induction firstS lastS i rule: scan_common.induct)
  case (1 firstS lastS i)
  show ?case
  proof (cases "i < length firstS")
    case False
    with "1.prems" show ?thesis by (subst scan_common.simps) simp
  next
    case inF: True
    show ?thesis
    proof (cases "i < length lastS \<and> firstS ! i = lastS ! i")
      case True
      then have il: "i < length lastS" and eq: "firstS ! i = lastS ! i" by simp_all
      have df: "drop i firstS = firstS ! i # drop (Suc i) firstS"
        using inF by (simp add: Cons_nth_drop_Suc)
      have dl: "drop i lastS = firstS ! i # drop (Suc i) lastS"
        using il eq by (simp add: Cons_nth_drop_Suc)
      have "scan_common firstS lastS i = scan_common firstS lastS (Suc i)"
        using inF True by (subst scan_common.simps) simp
      also have "\<dots> = take (Suc i) firstS
          @ longest_common_prefix (drop (Suc i) firstS) (drop (Suc i) lastS)"
        using "1.IH" inF True by simp
      also have "\<dots> = take i firstS
          @ longest_common_prefix (drop i firstS) (drop i lastS)"
        using inF by (simp add: df dl take_Suc_conv_app_nth)
      finally show ?thesis .
    next
      case False
      have df: "drop i firstS = firstS ! i # drop (Suc i) firstS"
        using inF by (simp add: Cons_nth_drop_Suc)
      have "longest_common_prefix (drop i firstS) (drop i lastS) = []"
      proof (cases "i < length lastS")
        case True
        then have "drop i lastS = lastS ! i # drop (Suc i) lastS"
          by (simp add: Cons_nth_drop_Suc)
        with df False True show ?thesis by simp
      next
        case False
        then show ?thesis by simp
      qed
      moreover have "scan_common firstS lastS i = take i firstS"
        using inF False by (subst scan_common.simps) auto
      ultimately show ?thesis by simp
    qed
  qed
qed

lemma scan_common_lcp: "scan_common firstS lastS 0 = longest_common_prefix firstS lastS"
  using scan_common_from [of 0 firstS lastS] by simp

text \<open>A string between two strings that share a prefix shares it too.\<close>

lemma prefix_between:
  fixes a :: "'a::linorder list"
  shows "a \<le> s \<Longrightarrow> s \<le> b \<Longrightarrow> prefix q a \<Longrightarrow> prefix q b \<Longrightarrow> prefix q s"
proof (induction q arbitrary: a s b)
  case Nil
  show ?case by simp
next
  case (Cons c q)
  from Cons.prems(3) obtain a' where a: "a = c # a'" by (cases a) auto
  from Cons.prems(4) obtain b' where b: "b = c # b'" by (cases b) auto
  from Cons.prems(1) a obtain d s' where s: "s = d # s'" by (cases s) auto
  from Cons.prems(1) a s have "c \<le> d" by auto
  moreover from Cons.prems(2) b s have "d \<le> c" by auto
  ultimately have dc: "d = c" by simp
  have "a' \<le> s'" using Cons.prems(1) a s dc by simp
  moreover have "s' \<le> b'" using Cons.prems(2) b s dc by simp
  moreover have "prefix q a'" using Cons.prems(3) a by simp
  moreover have "prefix q b'" using Cons.prems(4) b by simp
  ultimately have "prefix q s'" by (rule Cons.IH)
  with s dc show ?case by simp
qed

lemma sort_first_Min:
  fixes xs :: "'a::linorder list"
  assumes "xs \<noteq> []"
  shows "sort xs ! 0 = Min (set xs)"
proof -
  have ne: "sort xs \<noteq> []" using assms by (metis length_0_conv length_sort)
  then obtain y ys where ys: "sort xs = y # ys" by (cases "sort xs") auto
  have "sorted (y # ys)" using ys by (metis sorted_sort)
  then have le: "\<forall>z\<in>set ys. y \<le> z" by simp
  have st: "set xs = insert y (set ys)" using ys by (metis set_sort list.simps(15))
  have "Min (set xs) = y"
  proof (rule Min_eqI)
    show "finite (set xs)" by simp
    show "y \<in> set xs" using st by simp
    fix z assume "z \<in> set xs"
    then show "y \<le> z" using st le by auto
  qed
  with ys show ?thesis by simp
qed

lemma sort_last_Max:
  fixes xs :: "'a::linorder list"
  assumes "xs \<noteq> []"
  shows "sort xs ! (length (sort xs) - 1) = Max (set xs)"
proof -
  have ne: "sort xs \<noteq> []" using assms by (metis length_0_conv length_sort)
  have srt: "sorted (sort xs)" by simp
  have l: "sort xs ! (length (sort xs) - 1) = last (sort xs)"
    using ne by (simp add: last_conv_nth)
  have "\<forall>z\<in>set xs. z \<le> last (sort xs)"
  proof
    fix z assume "z \<in> set xs"
    then have "z \<in> set (sort xs)" by simp
    then obtain i where i: "i < length (sort xs)" "sort xs ! i = z"
      unfolding in_set_conv_nth by blast
    have "sort xs ! i \<le> sort xs ! (length (sort xs) - 1)"
      using srt i(1) by (intro sorted_nth_mono) auto
    with i l show "z \<le> last (sort xs)" by simp
  qed
  moreover have "last (sort xs) \<in> set (sort xs)" using ne by (rule last_in_set)
  then have "last (sort xs) \<in> set xs" by simp
  ultimately have "Max (set xs) = last (sort xs)"
    by (intro Max_eqI) auto
  with l show ?thesis by simp
qed

lemma getCommonStringStart_Min_Max:
  assumes "2 \<le> length strings"
  shows "getCommonStringStart strings =
    longest_common_prefix (Min (set strings)) (Max (set strings))"
proof -
  have ne: "strings \<noteq> []" using assms by (cases strings) simp_all
  have "getCommonStringStart strings =
      scan_common (sort strings ! 0) (sort strings ! (length (sort strings) - 1)) 0"
    using assms by (simp add: getCommonStringStart_def Let_def)
  also have "\<dots> = longest_common_prefix (sort strings ! 0)
      (sort strings ! (length (sort strings) - 1))"
    by (rule scan_common_lcp)
  finally show ?thesis
    by (simp only: sort_first_Min [OF ne] sort_last_Max [OF ne])
qed

lemma lcp_Min_Max_longest:
  fixes paths :: "string list"
  assumes "paths \<noteq> []"
  shows "longest_shared_prefix paths
    (longest_common_prefix (Min (set paths)) (Max (set paths)))"
proof -
  let ?a = "Min (set paths)" and ?b = "Max (set paths)"
  let ?p = "longest_common_prefix ?a ?b"
  have fin: "finite (set paths)" and nes: "set paths \<noteq> {}" using assms by auto
  have "\<forall>s\<in>set paths. prefix ?p s"
  proof
    fix s assume s: "s \<in> set paths"
    have "?a \<le> s" using s fin by simp
    moreover have "s \<le> ?b" using s fin by simp
    moreover have "prefix ?p ?a" by (rule longest_common_prefix_prefix1)
    moreover have "prefix ?p ?b" by (rule longest_common_prefix_prefix2)
    ultimately show "prefix ?p s" by (rule prefix_between)
  qed
  moreover have "\<forall>q. (\<forall>s\<in>set paths. prefix q s) \<longrightarrow> prefix q ?p"
  proof (intro allI impI)
    fix q assume q: "\<forall>s\<in>set paths. prefix q s"
    have "?a \<in> set paths" using fin nes by (rule Min_in)
    moreover have "?b \<in> set paths" using fin nes by (rule Max_in)
    ultimately have "prefix q ?a" "prefix q ?b" using q by auto
    then show "prefix q ?p" by (rule longest_common_prefix_max_prefix)
  qed
  ultimately show ?thesis by (simp add: longest_shared_prefix_def)
qed

lemma lastIndexOf_take:
  "take (nat (lastIndexOf s c + 1)) s = rev (dropWhile (\<lambda>x. x \<noteq> c) (rev s))"
proof (cases "c \<in> set s")
  case False
  then have "dropWhile (\<lambda>x. x \<noteq> c) (rev s) = []" by (auto simp: dropWhile_eq_Nil_conv)
  with False show ?thesis by (simp add: lastIndexOf_def)
next
  case True
  let ?t = "takeWhile (\<lambda>x. x \<noteq> c) (rev s)" and ?d = "dropWhile (\<lambda>x. x \<noteq> c) (rev s)"
  have split: "rev s = ?t @ ?d" by simp
  have len: "length s = length ?t + length ?d"
    by (metis length_append length_rev split)
  have "?d \<noteq> []" using True by (auto simp: dropWhile_eq_Nil_conv)
  then have pos: "0 < length ?d" by simp
  have n: "nat (lastIndexOf s c + 1) = length ?d"
    using True len pos by (simp add: lastIndexOf_def)
  have "s = rev ?d @ rev ?t" by (metis rev_append rev_rev_ident split)
  then have "take (length ?d) s = rev ?d"
    by (metis append_eq_conv_conj length_rev)
  with n show ?thesis by simp
qed

lemma commonFilePathOf_truncate: "commonFilePathOf p = truncate_to_separator p"
  by (simp add: commonFilePathOf_def truncate_to_separator_def lastIndexOf_take)

lemma longest_shared_prefix_singleton:
  "longest_shared_prefix [s] p \<longleftrightarrow> p = s"
proof
  assume h: "longest_shared_prefix [s] p"
  then have "prefix p s" by (simp add: longest_shared_prefix_def)
  moreover from h have "prefix s p" by (simp add: longest_shared_prefix_def)
  ultimately show "p = s" by (rule prefix_order.antisym)
next
  assume "p = s"
  then show "longest_shared_prefix [s] p" by (simp add: longest_shared_prefix_def)
qed

lemma getCommonStringStart_short:
  "length strings < 2 \<Longrightarrow> commonFilePathOf (getCommonStringStart strings) = []"
  by (simp add: getCommonStringStart_def commonFilePathOf_def)

text \<open>
  C3, as the code has it. For at least two paths the displayed prefix is the longest
  string prefix shared by every path, cut back to its last \<open>/\<close> (inclusive), and the
  common start is the common prefix of the lexicographic minimum and maximum of the
  paths. \<open>getCommonStringStart\<close> returns the empty string for fewer than two paths
  (its first line), so for a single path the displayed prefix is empty, not the
  directory part of the path.
\<close>

theorem C3_common_prefix:
  "(2 \<le> length paths \<longrightarrow>
      directory_aligned_prefix paths (commonFilePathOf (getCommonStringStart paths)) \<and>
      getCommonStringStart paths =
        longest_common_prefix (Min (set paths)) (Max (set paths))) \<and>
   (length paths < 2 \<longrightarrow> commonFilePathOf (getCommonStringStart paths) = [])"
proof (intro conjI impI)
  assume two: "2 \<le> length paths"
  then have ne: "paths \<noteq> []" by (cases paths) simp_all
  show mm: "getCommonStringStart paths =
      longest_common_prefix (Min (set paths)) (Max (set paths))"
    using two by (rule getCommonStringStart_Min_Max)
  have "longest_shared_prefix paths (getCommonStringStart paths)"
    unfolding mm using ne by (rule lcp_Min_Max_longest)
  then show "directory_aligned_prefix paths
      (commonFilePathOf (getCommonStringStart paths))"
    unfolding directory_aligned_prefix_def commonFilePathOf_truncate by blast
next
  assume "length paths < 2"
  then show "commonFilePathOf (getCommonStringStart paths) = []"
    by (rule getCommonStringStart_short)
qed

text \<open>
  The paths of the specification's example, \<open>a/b/c.js\<close>, \<open>a/b/d.js\<close> and \<open>a/e.js\<close>:
  the displayed prefix is \<open>a/\<close>.
\<close>

theorem C3_common_prefix_witness:
  "commonFilePathOf (getCommonStringStart [''a/b/c.js'', ''a/b/d.js'', ''a/e.js'']) = ''a/'' \<and>
   directory_aligned_prefix [''a/b/c.js'', ''a/b/d.js'', ''a/e.js'']
     (commonFilePathOf (getCommonStringStart [''a/b/c.js'', ''a/b/d.js'', ''a/e.js''])) \<and>
   getCommonStringStart [''a/b/c.js'', ''a/b/d.js'', ''a/e.js''] =
     longest_common_prefix (Min (set [''a/b/c.js'', ''a/b/d.js'', ''a/e.js'']))
       (Max (set [''a/b/c.js'', ''a/b/d.js'', ''a/e.js'']))"
proof -
  have len: "2 \<le> length [''a/b/c.js'', ''a/b/d.js'', ''a/e.js'']" by simp
  have val: "commonFilePathOf (getCommonStringStart [''a/b/c.js'', ''a/b/d.js'', ''a/e.js''])
      = ''a/''"
    by code_simp
  show ?thesis
    using C3_common_prefix [of "[''a/b/c.js'', ''a/b/d.js'', ''a/e.js'']"] len val
    by blast
qed

text \<open>
  C3 as stated fails for a single path: the longest prefix shared by every path of
  \<open>{a/b/c.js}\<close> is the path itself, whose directory part is \<open>a/b/\<close>, and the code
  displays the empty prefix.
\<close>

theorem C3_singleton_counterexample:
  "\<not> directory_aligned_prefix [''a/b/c.js'']
     (commonFilePathOf (getCommonStringStart [''a/b/c.js'']))"
proof
  assume "directory_aligned_prefix [''a/b/c.js'']
     (commonFilePathOf (getCommonStringStart [''a/b/c.js'']))"
  then have "commonFilePathOf (getCommonStringStart [''a/b/c.js''])
      = truncate_to_separator ''a/b/c.js''"
    by (simp add: directory_aligned_prefix_def longest_shared_prefix_singleton)
  moreover have "commonFilePathOf (getCommonStringStart [''a/b/c.js'']) = []"
    by (rule getCommonStringStart_short) simp
  moreover have "truncate_to_separator ''a/b/c.js'' = ''a/b/''"
    by (simp add: truncate_to_separator_def)
  ultimately show False by simp
qed

section \<open>Properties of the classification and of the table of files\<close>

lemma js_Set_fold:
  "set (fold (\<lambda>x acc. if x \<in> set acc then acc else acc @ [x]) xs acc) = set acc \<union> set xs \<and>
   (distinct acc \<longrightarrow> distinct (fold (\<lambda>x acc. if x \<in> set acc then acc else acc @ [x]) xs acc))"
  by (induction xs arbitrary: acc) auto

lemma set_js_Set: "set (js_Set xs) = set xs"
  using js_Set_fold [of xs "[]"] by (simp add: js_Set_def)


lemma set_allFilePaths:
  "set (allFilePaths targetStats prStats) =
     fst ` set (files prStats) \<union> fst ` set (files targetStats)"
  by (simp add: allFilePaths_def set_js_Set)

lemma in_keys_iff: "k \<in> fst ` set al \<longleftrightarrow> map_of al k \<noteq> None"
  by (simp add: map_of_eq_None_iff)

lemma classify_None_iff:
  "classify targetStats prStats p = None \<longleftrightarrow> p \<notin> set (allFilePaths targetStats prStats)"
  by (auto simp: classify_def set_allFilePaths in_keys_iff split: option.splits)



lemma classify_Modified_iff:
  "classify targetStats prStats p = Some Modified \<longleftrightarrow>
     (\<exists>s t. map_of (files prStats) p = Some s \<and> map_of (files targetStats) p = Some t
        \<and> size_b s \<noteq> size_b t)"
  by (auto simp: classify_def split: option.splits)

lemma classify_Unchanged_iff:
  "classify targetStats prStats p = Some Unchanged \<longleftrightarrow>
     (\<exists>s t. map_of (files prStats) p = Some s \<and> map_of (files targetStats) p = Some t
        \<and> size_b s = size_b t)"
  by (auto simp: classify_def split: option.splits)

subsection \<open>The three arrays of \<open>run\<close>\<close>




subsection \<open>The two loops of \<open>getStatComment\<close>\<close>








lemma classify_in_all:
  "classify targetStats prStats p = Some c \<Longrightarrow> p \<in> set (allFilePaths targetStats prStats)"
  using classify_None_iff [of targetStats prStats p] by auto










section \<open>Rows of removed files and the label of the details section\<close>






subsection \<open>The label\<close>









lemma join_Nil_iff:
  assumes "\<forall>x\<in>set xs. x \<noteq> []"
  shows "join sep xs = [] \<longleftrightarrow> xs = []"
  using assms by (induction sep xs rule: join.induct) simp_all





section \<open>Properties of the build script\<close>

lemma split_from_nonempty: "split_from sep acc s \<noteq> []"
  by (induction sep acc s rule: split_from.induct) auto

lemma join_Cons: "xs \<noteq> [] \<Longrightarrow> join sep (x # xs) = x @ sep @ join sep xs"
  by (cases xs) simp_all

lemma join_split_from:
  "sep \<noteq> [] \<Longrightarrow> join sep (split_from sep acc s) = acc @ s"
proof (induction sep acc s rule: split_from.induct)
  case (1 sep acc)
  show ?case by simp
next
  case (2 sep acc c cs)
  show ?case
  proof (cases "prefix sep (c # cs)")
    case True
    then obtain t where t: "c # cs = sep @ t" by (auto simp: prefix_def)
    obtain s0 sep' where sep: "sep = s0 # sep'" using "2.prems" by (cases sep) auto
    have cs: "cs = sep' @ t" and "s0 = c" using t sep by simp_all
    then have d: "drop (length sep - 1) cs = t" using sep by simp
    have "join sep (split_from sep acc (c # cs))
        = join sep (acc # split_from sep [] (drop (length sep - 1) cs))"
      using True "2.prems" by simp
    also have "\<dots> = acc @ sep @ join sep (split_from sep [] (drop (length sep - 1) cs))"
      by (rule join_Cons) (rule split_from_nonempty)
    also have "\<dots> = acc @ sep @ t"
      using "2.IH"(1) True "2.prems" d by simp
    finally show ?thesis using t by simp
  next
    case False
    then show ?thesis using "2.IH"(2) "2.prems" by simp
  qed
qed

lemma join_js_split: "sep \<noteq> [] \<Longrightarrow> join sep (js_split s sep) = s"
  using join_split_from [of sep "[]" s] by (simp add: js_split_def)

lemma split_space_from_nonempty: "split_space_from acc s \<noteq> []"
  by (induction acc s rule: split_space_from.induct) auto

lemma split_space_nonempty: "split_space s \<noteq> []"
  by (simp add: split_space_def split_space_from_nonempty)

lemma filter_dropWhile_not:
  "filter (\<lambda>c. \<not> P c) (dropWhile P xs) = filter (\<lambda>c. \<not> P c) xs"
  by (induction xs) auto

lemma concat_split_space_from:
  "concat (split_space_from acc s) = acc @ filter (\<lambda>c. \<not> is_space c) s"
  by (induction acc s rule: split_space_from.induct) (auto simp: filter_dropWhile_not)

lemma split_space_from_no_space:
  "\<forall>c\<in>set acc. \<not> is_space c \<Longrightarrow>
   \<forall>t\<in>set (split_space_from acc s). \<forall>c\<in>set t. \<not> is_space c"
proof (induction acc s rule: split_space_from.induct)
  case (1 acc)
  then show ?case by simp
next
  case (2 acc c cs)
  show ?case
  proof (cases "is_space c")
    case True
    have "\<forall>t\<in>set (split_space_from [] (dropWhile is_space cs)). \<forall>c\<in>set t. \<not> is_space c"
      using True by (rule "2.IH"(1)) simp
    with True "2.prems" show ?thesis by simp
  next
    case False
    have "\<forall>c\<in>set (acc @ [c]). \<not> is_space c" using False "2.prems" by simp
    with False have "\<forall>t\<in>set (split_space_from (acc @ [c]) cs). \<forall>c\<in>set t. \<not> is_space c"
      by (rule "2.IH"(2))
    with False show ?thesis by simp
  qed
qed

lemma filter_trim: "filter (\<lambda>c. \<not> is_space c) (trim s) = filter (\<lambda>c. \<not> is_space c) s"
proof -
  have "filter (\<lambda>c. \<not> is_space c) (trim s)
      = rev (filter (\<lambda>c. \<not> is_space c) (dropWhile is_space (rev (dropWhile is_space s))))"
    by (simp add: trim_def rev_filter)
  also have "\<dots> = rev (filter (\<lambda>c. \<not> is_space c) (rev (dropWhile is_space s)))"
    by (simp only: filter_dropWhile_not)
  also have "\<dots> = filter (\<lambda>c. \<not> is_space c) (dropWhile is_space s)"
    by (simp add: rev_filter)
  also have "\<dots> = filter (\<lambda>c. \<not> is_space c) s"
    by (rule filter_dropWhile_not)
  finally show ?thesis .
qed

lemma tokens_of_segment:
  "split_space (trim seg) \<noteq> [] \<and>
   (\<forall>t\<in>set (split_space (trim seg)). \<forall>c\<in>set t. \<not> is_space c) \<and>
   concat (split_space (trim seg)) = filter (\<lambda>c. \<not> is_space c) seg"
  using split_space_from_no_space [of "[]" "trim seg"] split_space_from_nonempty [of "[]" "trim seg"]
  by (simp add: split_space_def concat_split_space_from filter_trim)

lemma parseCommand_split:
  "split_space cmd = fst (parseCommand cmd) # snd (parseCommand cmd)"
  using split_space_nonempty [of cmd] by (cases "split_space cmd") (simp_all add: parseCommand_def)

lemma runCommands_trace:
  "\<exists>done rest.
     map parseCommand cmds = done @ rest \<and>
     snd (runCommands s cwd cmds log) = log @ map (execEvent cwd) done \<and>
     all_succeed s cwd (butlast done) log \<and>
     (case fst (runCommands s cwd cmds log) of
        Inr u \<Rightarrow> rest = [] \<and> all_succeed s cwd done log
      | Inl e \<Rightarrow> done \<noteq> [] \<and>
          e = ExecFailed (fst (last done)) (snd (last done)) cwd \<and>
          \<not> sys_exec s (log @ map (execEvent cwd) (butlast done))
              (fst (last done)) (snd (last done)) cwd)"
proof (induction cmds arbitrary: log)
  case Nil
  show ?case by simp
next
  case (Cons cmd cmds)
  obtain n as where pc: "parseCommand cmd = (n, as)" by (cases "parseCommand cmd")
  then have sp: "split_space cmd = n # as" using parseCommand_split [of cmd] by simp
  show ?case
  proof (cases "sys_exec s log n as cwd")
    case False
    have r: "runCommands s cwd (cmd # cmds) log
        = (Inl (ExecFailed n as cwd), log @ [Exec n as cwd])"
      using sp False by simp
    have "map parseCommand (cmd # cmds) = [(n, as)] @ map parseCommand cmds"
      using pc by simp
    moreover have "snd (runCommands s cwd (cmd # cmds) log)
        = log @ map (execEvent cwd) [(n, as)]"
      using r by (simp add: execEvent_def)
    moreover have "all_succeed s cwd (butlast [(n, as)]) log" by simp
    moreover have "case fst (runCommands s cwd (cmd # cmds) log) of
        Inr u \<Rightarrow> map parseCommand cmds = [] \<and> all_succeed s cwd [(n, as)] log
      | Inl e \<Rightarrow> [(n, as)] \<noteq> [] \<and>
          e = ExecFailed (fst (last [(n, as)])) (snd (last [(n, as)])) cwd \<and>
          \<not> sys_exec s (log @ map (execEvent cwd) (butlast [(n, as)]))
              (fst (last [(n, as)])) (snd (last [(n, as)])) cwd"
      using r False by simp
    ultimately show ?thesis
      by (intro exI [of _ "[(n, as)]"] exI [of _ "map parseCommand cmds"] conjI)
  next
    case True
    let ?log' = "log @ [Exec n as cwd]"
    have r: "runCommands s cwd (cmd # cmds) log = runCommands s cwd cmds ?log'"
      using sp True by simp
    obtain done' rest where
      d: "map parseCommand cmds = done' @ rest"
      and l: "snd (runCommands s cwd cmds ?log') = ?log' @ map (execEvent cwd) done'"
      and b: "all_succeed s cwd (butlast done') ?log'"
      and c: "case fst (runCommands s cwd cmds ?log') of
          Inr u \<Rightarrow> rest = [] \<and> all_succeed s cwd done' ?log'
        | Inl e \<Rightarrow> done' \<noteq> [] \<and>
            e = ExecFailed (fst (last done')) (snd (last done')) cwd \<and>
            \<not> sys_exec s (?log' @ map (execEvent cwd) (butlast done'))
                (fst (last done')) (snd (last done')) cwd"
      using Cons.IH [of ?log'] by (elim exE conjE) (rule that)
    let ?done = "(n, as) # done'"
    have ev: "[Exec n as cwd] = [execEvent cwd (n, as)]" by (simp add: execEvent_def)
    have 1: "map parseCommand (cmd # cmds) = ?done @ rest" using pc d by simp
    have 2: "snd (runCommands s cwd (cmd # cmds) log) = log @ map (execEvent cwd) ?done"
      using r l by (simp add: execEvent_def)
    have 3: "all_succeed s cwd (butlast ?done) log"
      using b True by (simp add: execEvent_def)
    have 4: "case fst (runCommands s cwd (cmd # cmds) log) of
          Inr u \<Rightarrow> rest = [] \<and> all_succeed s cwd ?done log
        | Inl e \<Rightarrow> ?done \<noteq> [] \<and>
            e = ExecFailed (fst (last ?done)) (snd (last ?done)) cwd \<and>
            \<not> sys_exec s (log @ map (execEvent cwd) (butlast ?done))
                (fst (last ?done)) (snd (last ?done)) cwd"
    proof (cases "fst (runCommands s cwd cmds ?log')")
      case (Inr u)
      with c True show ?thesis unfolding r by (simp add: execEvent_def)
    next
      case (Inl e)
      with c have ne: "done' \<noteq> []" by simp
      from Inl c ne show ?thesis unfolding r by (simp add: execEvent_def)
    qed
    from 1 2 3 4 show ?thesis
      by (intro exI [of _ "?done"] exI [of _ rest] conjI)
  qed
qed


text \<open>
  C6. Without a script nothing is executed. A script is split at every \<open>&&\<close> (the
  pieces joined by \<open>&&\<close> give the script back); each piece is trimmed and cut at its
  runs of white space into a command and its arguments, which hold no white space and,
  put together, are the characters of the piece that are not white space. The commands
  are executed in this order in the directory \<open>cwd\<close>, each after the one before has
  succeeded; the first command that fails is the last one executed and its failure is
  the result.
\<close>

theorem C6_build_runner:
  "runScript s branch cwd [] log = (Inr (), log) \<and>
   (script \<noteq> [] \<longrightarrow>
      join ''&&'' (js_split script ''&&'') = script \<and>
      (\<forall>seg.
         fst (parseCommand (trim seg)) # snd (parseCommand (trim seg))
           = split_space (trim seg) \<and>
         (\<forall>t\<in>set (split_space (trim seg)). \<forall>c\<in>set t. \<not> is_space c) \<and>
         concat (split_space (trim seg)) = filter (\<lambda>c. \<not> is_space c) seg) \<and>
      (\<exists>done rest.
         map (\<lambda>seg. parseCommand (trim seg)) (js_split script ''&&'') = done @ rest \<and>
         snd (runScript s branch cwd script log)
           = (log @ [Info (''['' @ branch @ ''] Running '' @ script)])
             @ map (execEvent cwd) done \<and>
         all_succeed s cwd (butlast done)
           (log @ [Info (''['' @ branch @ ''] Running '' @ script)]) \<and>
         (case fst (runScript s branch cwd script log) of
            Inr u \<Rightarrow> rest = [] \<and>
              all_succeed s cwd done (log @ [Info (''['' @ branch @ ''] Running '' @ script)])
          | Inl e \<Rightarrow> done \<noteq> [] \<and>
              e = ExecFailed (fst (last done)) (snd (last done)) cwd \<and>
              \<not> sys_exec s
                  ((log @ [Info (''['' @ branch @ ''] Running '' @ script)])
                   @ map (execEvent cwd) (butlast done))
                  (fst (last done)) (snd (last done)) cwd)))"
proof (intro conjI impI allI)
  show "runScript s branch cwd [] log = (Inr (), log)" by (simp add: runScript_def)
next
  show "join ''&&'' (js_split script ''&&'') = script" by (rule join_js_split) simp
next
  fix seg
  show "fst (parseCommand (trim seg)) # snd (parseCommand (trim seg))
      = split_space (trim seg)"
    by (rule parseCommand_split [symmetric])
  show "\<forall>t\<in>set (split_space (trim seg)). \<forall>c\<in>set t. \<not> is_space c"
    using tokens_of_segment [of seg] by blast
  show "concat (split_space (trim seg)) = filter (\<lambda>c. \<not> is_space c) seg"
    using tokens_of_segment [of seg] by blast
next
  assume ne: "script \<noteq> []"
  let ?start = "log @ [Info (''['' @ branch @ ''] Running '' @ script)]"
  have r: "runScript s branch cwd script log
      = runCommands s cwd (map trim (js_split script ''&&'')) ?start"
    using ne by (simp add: runScript_def)
  have m: "map parseCommand (map trim (js_split script ''&&''))
      = map (\<lambda>seg. parseCommand (trim seg)) (js_split script ''&&'')"
    by simp
  show "\<exists>done rest.
         map (\<lambda>seg. parseCommand (trim seg)) (js_split script ''&&'') = done @ rest \<and>
         snd (runScript s branch cwd script log) = ?start @ map (execEvent cwd) done \<and>
         all_succeed s cwd (butlast done) ?start \<and>
         (case fst (runScript s branch cwd script log) of
            Inr u \<Rightarrow> rest = [] \<and> all_succeed s cwd done ?start
          | Inl e \<Rightarrow> done \<noteq> [] \<and>
              e = ExecFailed (fst (last done)) (snd (last done)) cwd \<and>
              \<not> sys_exec s (?start @ map (execEvent cwd) (butlast done))
                  (fst (last done)) (snd (last done)) cwd)"
    using runCommands_trace [of "map trim (js_split script ''&&'')" s cwd ?start]
    unfolding r m .
qed

text \<open>
  The script \<open>npm ci && npm run build && npm test\<close> on a system where every command
  succeeds, and on one where \<open>npm run build\<close> fails: there \<open>npm test\<close> is not executed.
\<close>

theorem C6_build_runner_witness:
  "runScript example_sys ''main'' ''../.filediff/main''
       ''npm ci && npm run build  && npm test'' []
     = (Inr (),
        [Info ''[main] Running npm ci && npm run build  && npm test'',
         Exec ''npm'' [''ci''] ''../.filediff/main'',
         Exec ''npm'' [''run'', ''build''] ''../.filediff/main'',
         Exec ''npm'' [''test''] ''../.filediff/main'']) \<and>
   runScript failing_build_sys ''main'' ''../.filediff/main''
       ''npm ci && npm run build  && npm test'' []
     = (Inl (ExecFailed ''npm'' [''run'', ''build''] ''../.filediff/main''),
        [Info ''[main] Running npm ci && npm run build  && npm test'',
         Exec ''npm'' [''ci''] ''../.filediff/main'',
         Exec ''npm'' [''run'', ''build''] ''../.filediff/main'']) \<and>
   join ''&&'' (js_split ''npm ci && npm run build  && npm test'' ''&&'')
     = ''npm ci && npm run build  && npm test'' \<and>
   runScript example_sys ''main'' ''../.filediff/main'' [] [] = (Inr (), [])"
proof -
  have ne: "''npm ci && npm run build  && npm test'' \<noteq> []" by simp
  note c6 = C6_build_runner [of example_sys "''main''" "''../.filediff/main''" "[]"
      "''npm ci && npm run build  && npm test''"]
  have a: "runScript example_sys ''main'' ''../.filediff/main''
       ''npm ci && npm run build  && npm test'' []
     = (Inr (),
        [Info ''[main] Running npm ci && npm run build  && npm test'',
         Exec ''npm'' [''ci''] ''../.filediff/main'',
         Exec ''npm'' [''run'', ''build''] ''../.filediff/main'',
         Exec ''npm'' [''test''] ''../.filediff/main''])"
    by code_simp
  have b: "runScript failing_build_sys ''main'' ''../.filediff/main''
       ''npm ci && npm run build  && npm test'' []
     = (Inl (ExecFailed ''npm'' [''run'', ''build''] ''../.filediff/main''),
        [Info ''[main] Running npm ci && npm run build  && npm test'',
         Exec ''npm'' [''ci''] ''../.filediff/main'',
         Exec ''npm'' [''run'', ''build''] ''../.filediff/main''])"
    by code_simp
  from c6 ne have j: "join ''&&'' (js_split ''npm ci && npm run build  && npm test'' ''&&'')
     = ''npm ci && npm run build  && npm test''"
    by blast
  from c6 have e: "runScript example_sys ''main'' ''../.filediff/main'' [] [] = (Inr (), [])"
    by blast
  from a b j e show ?thesis by (intro conjI)
qed

section \<open>The keys and the totals of the collected statistics\<close>

text \<open>
  C4 at a pull request against \<open>main\<close> in a repository with a package directory named
  \<open>main\<close>: the key of \<open>packages/main/index.js\<close> is \<open>packages/\<close>, the piece between the
  first and the second \<open>main/\<close> of the absolute path, and not the path relative to the
  workspace. In a repository that is itself named \<open>main\<close> the first \<open>main/\<close> lies in the
  workspace root and every file gets the key \<open>.filediff/\<close>.
\<close>

theorem C4_key_is_not_the_relative_path:
  "pathAfterBranch ''/home/runner/work/app/.filediff/main/packages/main/index.js'' ''main''
     = Some ''packages/'' \<and>
   fileKey ''/home/runner/work/app/.filediff/main/packages/main/index.js'' ''main''
     = ''packages/'' \<and>
   fileKey ''/home/runner/work/app/.filediff/main/packages/main/other.js'' ''main''
     = ''packages/'' \<and>
   fileKey ''/home/runner/work/main/.filediff/main/dist/index.js'' ''main''
     = ''.filediff/''"
  by code_simp

text \<open>
  C5 at the same kind of input: two files of 10 and 20 bytes get the same key, the
  second entry replaces the first, and the totals count both: \<open>totalSize\<close> is 30 while
  the sizes of the entries of \<open>files\<close> sum to 20.
\<close>

theorem C5_totals_exceed_the_entries:
  "fst (getBranchStats collision_sys ''main'' ''packages/**'' [] [])
     = Inr \<lparr>totalSize = 30, totalGzip = 70, totalBrotli = 38,
            files = [(''packages/'', \<lparr>size_b = 20, gzip = 40, brotli = 24\<rparr>)]\<rparr>"
  by code_simp

end
